theory Spec2Isabelle
  imports Main "HOL-Library.Word" "HOL-Library.Sublist"
begin

section \<open>Serializable engine exceptions (src/ee/common/SerializableEEException.h)\<close>

text \<open>
  The header declares the exception type tags, the base class of every exception that
  the execution engine serializes for the host, the one concrete class
  \<open>UnexpectedEEException\<close>, and two macros that raise it. Member functions
  defined in the header are translated from it; the three whose bodies live in the
  implementation file (the protected constructor, \<open>serialize\<close> and
  \<open>UnexpectedEEException::p_serialize\<close>) are declared in the header only and
  are marked below.
\<close>

subsection \<open>The type tags\<close>

text \<open>\<open>enum VoltEEExceptionType\<close>, lines 38 to 44, with the value written for each
  enumerator.\<close>

datatype VoltEEExceptionType =
    VOLT_EE_EXCEPTION_TYPE_NONE
  | VOLT_EE_EXCEPTION_TYPE_EEEXCEPTION
  | VOLT_EE_EXCEPTION_TYPE_SQL
  | VOLT_EE_EXCEPTION_TYPE_CONSTRAINT_VIOLATION
  | VOLT_EE_EXCEPTION_TYPE_INTERRUPT

fun ordinal :: "VoltEEExceptionType \<Rightarrow> int" where
  "ordinal VOLT_EE_EXCEPTION_TYPE_NONE = 0"
| "ordinal VOLT_EE_EXCEPTION_TYPE_EEEXCEPTION = 1"
| "ordinal VOLT_EE_EXCEPTION_TYPE_SQL = 2"
| "ordinal VOLT_EE_EXCEPTION_TYPE_CONSTRAINT_VIOLATION = 3"
| "ordinal VOLT_EE_EXCEPTION_TYPE_INTERRUPT = 4"

subsection \<open>The base class\<close>

text \<open>The two private data members, lines 69 and 70. A \<open>std::string\<close> is a
  sequence of bytes that may hold any byte, the zero byte included.\<close>

record SerializableEEException =
  m_exceptionType :: VoltEEExceptionType
  m_message :: string

text \<open>Modelled from the spec: the protected constructor
  \<open>SerializableEEException(VoltEEExceptionType exceptionType, std::string message)\<close>
  is declared on line 66 and defined in the implementation file, which is not among the
  sources. The spec has the discriminant "set once at construction" and the instance
  "constructed at the point of failure detection with an initial message".\<close>

definition SerializableEEException_ctor ::
    "VoltEEExceptionType \<Rightarrow> string \<Rightarrow> SerializableEEException" where
  "SerializableEEException_ctor exceptionType message =
     \<lparr>m_exceptionType = exceptionType, m_message = message\<rparr>"

text \<open>Line 62: \<open>virtual std::string message() const { return m_message; }\<close>\<close>

definition message :: "SerializableEEException \<Rightarrow> string" where
  "message e = m_message e"

text \<open>Line 63: \<open>VoltEEExceptionType getType() const { return m_exceptionType; }\<close>\<close>

definition getType :: "SerializableEEException \<Rightarrow> VoltEEExceptionType" where
  "getType e = m_exceptionType e"

text \<open>Line 64:
  \<open>void appendContextToMessage(const std::string& more) { m_message += more; }\<close>
  The method mutates the object; the model returns the object after the call. (The
  parameter is \<open>more_str\<close> here: \<open>more\<close> names a field of every record.)\<close>

definition appendContextToMessage ::
    "string \<Rightarrow> SerializableEEException \<Rightarrow> SerializableEEException" where
  "appendContextToMessage more_str e = e\<lparr>m_message := m_message e @ more_str\<rparr>"

subsection \<open>The output sink\<close>

text \<open>Modelled from the spec: \<open>class ReferenceSerializeOutput\<close> is only
  forward-declared on line 36; its definition is not among the sources. The spec treats
  it as an ordered sink "with typed write primitives" that "must support: write-int32,
  write-length-prefixed-text, and an implicit current write position (no random access
  needed)", and gives the wire format as a "fixed-width little/native-endian integer"
  of 32 bits for the discriminant, a 32-bit length, and then the bytes of the message.
  The sink is the list of the bytes written so far; a write appends.\<close>

type_synonym ReferenceSerializeOutput = "char list"

definition int32_bytes :: "32 word \<Rightarrow> char list" where
  "int32_bytes v =
     [char_of (unat v), char_of (unat v div 256),
      char_of (unat v div 65536), char_of (unat v div 16777216)]"

definition write_int32 :: "32 word \<Rightarrow> ReferenceSerializeOutput \<Rightarrow> ReferenceSerializeOutput" where
  "write_int32 v output = output @ int32_bytes v"

definition write_length_prefixed_text ::
    "string \<Rightarrow> ReferenceSerializeOutput \<Rightarrow> ReferenceSerializeOutput" where
  "write_length_prefixed_text s output = write_int32 (word_of_nat (length s)) output @ s"

text \<open>Modelled from the spec: the reader of that wire format, the "reference decoder"
  of the spec's testable properties. It reads a 32-bit integer, a text with its length
  before it, and a whole serialized exception: the discriminant, the message and the
  bytes left over, which are the trailer. A read that runs out of bytes, or a negative
  length, gives \<open>None\<close>.\<close>

definition read_int32 :: "char list \<Rightarrow> (32 word \<times> char list) option" where
  "read_int32 bs =
     (case bs of
        b0 # b1 # b2 # b3 # rest \<Rightarrow>
          Some (word_of_nat (of_char b0 + 256 * of_char b1 + 65536 * of_char b2
                             + 16777216 * of_char b3), rest)
      | _ \<Rightarrow> None)"

definition read_length_prefixed_text :: "char list \<Rightarrow> (string \<times> char list) option" where
  "read_length_prefixed_text bs =
     (case read_int32 bs of
        None \<Rightarrow> None
      | Some (n, rest) \<Rightarrow>
          if sint n < 0 \<or> int (length rest) < sint n then None
          else Some (take (nat (sint n)) rest, drop (nat (sint n)) rest))"

definition read_exception :: "char list \<Rightarrow> (32 word \<times> string \<times> char list) option" where
  "read_exception bs =
     (case read_int32 bs of
        None \<Rightarrow> None
      | Some (d, rest) \<Rightarrow>
          (case read_length_prefixed_text rest of
             None \<Rightarrow> None
           | Some (m, trailer) \<Rightarrow> Some (d, m, trailer)))"

subsection \<open>Virtual member functions and \<open>serialize\<close>\<close>

text \<open>The class has two virtual member functions, \<open>message\<close> (line 62, with the
  body above as its default) and the pure virtual \<open>p_serialize\<close> (line 67). A
  class derived from it is the pair of functions it supplies for them.\<close>

record exception_class =
  virtual_message :: "SerializableEEException \<Rightarrow> string"
  virtual_p_serialize ::
    "SerializableEEException \<Rightarrow> ReferenceSerializeOutput \<Rightarrow> ReferenceSerializeOutput"

text \<open>Modelled from the spec: \<open>serialize\<close> is declared on line 61, not virtual and
  \<open>const\<close>, and defined in the implementation file, which is not among the
  sources. The spec: it "writes, in order: (1) the discriminant ordinal as a fixed-width
  integer, (2) the current \<open>message()\<close> as a length-prefixed text blob, (3) the
  kind-specific trailer produced by the protected \<open>p_serialize\<close> hook".\<close>

definition serialize ::
    "exception_class \<Rightarrow> SerializableEEException \<Rightarrow> ReferenceSerializeOutput
       \<Rightarrow> ReferenceSerializeOutput" where
  "serialize cls e output =
     virtual_p_serialize cls e
       (write_length_prefixed_text (virtual_message cls e)
          (write_int32 (word_of_int (ordinal (getType e))) output))"

subsection \<open>The concrete class\<close>

text \<open>Lines 76 to 78: the public constructor passes the fixed tag and its argument to
  the base constructor and has an empty body. (Its parameter \<open>message\<close> is
  \<open>message_arg\<close> here, apart from the member function of that name.)\<close>

definition UnexpectedEEException :: "string \<Rightarrow> SerializableEEException" where
  "UnexpectedEEException message_arg =
     SerializableEEException_ctor VOLT_EE_EXCEPTION_TYPE_EEEXCEPTION message_arg"

text \<open>Modelled from the spec: \<open>UnexpectedEEException::p_serialize\<close> is declared on
  line 80 and defined in the implementation file, which is not among the sources. The
  spec: "for \<open>UnexpectedEngineException\<close> this writes nothing".\<close>

definition UnexpectedEEException_p_serialize ::
    "SerializableEEException \<Rightarrow> ReferenceSerializeOutput \<Rightarrow> ReferenceSerializeOutput" where
  "UnexpectedEEException_p_serialize e output = output"

text \<open>\<open>UnexpectedEEException\<close> (lines 74 to 81) overrides \<open>p_serialize\<close> and
  inherits \<open>message\<close>.\<close>

definition UnexpectedEEException_class :: exception_class where
  "UnexpectedEEException_class =
     \<lparr>virtual_message = message, virtual_p_serialize = UnexpectedEEException_p_serialize\<rparr>"

subsection \<open>The macros that raise\<close>

text \<open>A \<open>throw\<close> is the left injection of a sum: a macro that raises returns
  \<open>Inl\<close> of the exception object, and would return \<open>Inr\<close> if control came out
  at its end.\<close>

text \<open>\<open>snprintf(buf, n, format, ...)\<close> of the C library, as the bytes it stores
  in \<open>buf\<close>. Its argument \<open>formatted\<close> is the whole output that the format and
  its arguments produce, before any bound (a zero byte is in it when \<open>%c\<close> is given
  0). The C standard has the bytes beyond the first \<open>n - 1\<close> discarded and a zero
  byte stored after those kept; nothing is stored when \<open>n\<close> is 0. A conversion
  that fails with an encoding error, after which the array holds no defined text, is
  outside the model.\<close>

definition snprintf :: "nat \<Rightarrow> string \<Rightarrow> char list" where
  "snprintf n formatted = (if n = 0 then [] else take (n - 1) formatted @ [CHR 0x00])"

text \<open>\<open>std::string(const char *)\<close>, the conversion that the call
  \<open>UnexpectedEEException(msg)\<close> makes from the array: the bytes before the first
  zero byte.\<close>

definition string_of_chars :: "char list \<Rightarrow> string" where
  "string_of_chars buf = takeWhile (\<lambda>c. c \<noteq> CHR 0x00) buf"

text \<open>Line 23:
  \<open>#define throwSerializableEEException(...) { char msg[8192];
  snprintf(msg, 8192, __VA_ARGS__); throw voltdb::UnexpectedEEException(msg); }\<close>\<close>

definition throwSerializableEEException :: "string \<Rightarrow> SerializableEEException + unit" where
  "throwSerializableEEException formatted =
     (let msg = snprintf 8192 formatted
      in Inl (UnexpectedEEException (string_of_chars msg)))"

text \<open>What \<open>operator<<\<close> of an output stream inserts for a character string and for
  an \<open>int\<close> (in base ten, the stream's default): the operands that the claims use.\<close>

datatype streamable = Streamed_string string | Streamed_int int

fun decimal :: "nat \<Rightarrow> string" where
  "decimal n =
     (if n < 10 then [''0123456789'' ! n]
      else decimal (n div 10) @ [''0123456789'' ! (n mod 10)])"

fun inserted :: "streamable \<Rightarrow> string" where
  "inserted (Streamed_string s) = s"
| "inserted (Streamed_int i) = (if i < 0 then CHR ''-'' # decimal (nat (- i)) else decimal (nat i))"

definition stream_insert :: "string \<Rightarrow> streamable \<Rightarrow> string" where
  "stream_insert buffer v = buffer @ inserted v"

text \<open>Lines 25 to 28:
  \<open>#define throwUnexpectedEEExceptionStreamed(STREAMABLES) {
  std::ostringstream tUEEESbuffer;
  tUEEESbuffer << STREAMABLES << " " << __FILE__ << ":" << __LINE__ << "\n";
  throw voltdb::UnexpectedEEException(tUEEESbuffer.str()); }\<close>
  \<open>STREAMABLES\<close> is the chain of operands \<open>a << b << ...\<close> that the caller
  writes, here their list; \<open>file\<close> and \<open>line\<close> are what \<open>__FILE__\<close> and
  \<open>__LINE__\<close> expand to where the macro is used.\<close>

definition throwUnexpectedEEExceptionStreamed ::
    "streamable list \<Rightarrow> string \<Rightarrow> int \<Rightarrow> SerializableEEException + unit" where
  "throwUnexpectedEEExceptionStreamed STREAMABLES file line =
     (let tUEEESbuffer =
            foldl stream_insert []
              (STREAMABLES @
               [Streamed_string '' '', Streamed_string file, Streamed_string '':'',
                Streamed_int line, Streamed_string [CHR 0x0A]])
      in Inl (UnexpectedEEException tUEEESbuffer))"

subsection \<open>Calls on an instance\<close>

text \<open>The public member functions of lines 61 to 64, as calls on an instance of a
  class \<open>cls\<close> beside a sink. \<open>message\<close>, \<open>getType\<close> and
  \<open>serialize\<close> are declared \<open>const\<close>: the instance is after the call what
  it was before (the values the first two return are the functions above).
  \<open>serialize\<close> writes to the sink; \<open>appendContextToMessage\<close> changes the
  instance.\<close>

datatype member_call =
    Call_message
  | Call_getType
  | Call_appendContextToMessage string
  | Call_serialize

fun invoke ::
    "exception_class \<Rightarrow> member_call
       \<Rightarrow> SerializableEEException \<times> ReferenceSerializeOutput
       \<Rightarrow> SerializableEEException \<times> ReferenceSerializeOutput" where
  "invoke cls Call_message (e, output) = (e, output)"
| "invoke cls Call_getType (e, output) = (e, output)"
| "invoke cls (Call_appendContextToMessage s) (e, output) = (appendContextToMessage s e, output)"
| "invoke cls Call_serialize (e, output) = (e, serialize cls e output)"

fun invoke_all ::
    "exception_class \<Rightarrow> member_call list
       \<Rightarrow> SerializableEEException \<times> ReferenceSerializeOutput
       \<Rightarrow> SerializableEEException \<times> ReferenceSerializeOutput" where
  "invoke_all cls [] st = st"
| "invoke_all cls (c # cs) st = invoke_all cls cs (invoke cls c st)"

section \<open>Properties\<close>

subsection \<open>The wire format read back\<close>

lemma bytes_sum:
  fixes n :: nat
  assumes "n < 4294967296"
  shows "n mod 256 + 256 * (n div 256 mod 256) + 65536 * (n div 65536 mod 256)
         + 16777216 * (n div 16777216 mod 256) = n"
proof -
  define a where "a = n div 256"
  define b where "b = a div 256"
  define c where "c = b div 256"
  have d1: "n div 65536 = b" by (simp add: a_def b_def div_mult2_eq)
  have d2: "n div 16777216 = c" by (simp add: a_def b_def c_def div_mult2_eq)
  have "c < 256" using assms unfolding d2 [symmetric] by (simp add: less_mult_imp_div_less)
  then have c: "c mod 256 = c" by simp
  have "n = n mod 256 + 256 * a" by (simp add: a_def)
  moreover have "a = a mod 256 + 256 * b" by (simp add: b_def)
  moreover have "b = b mod 256 + 256 * c" by (simp add: c_def)
  ultimately have "n = n mod 256 + 256 * (a mod 256) + 65536 * (b mod 256) + 16777216 * c"
    by linarith
  then show ?thesis unfolding d1 d2 c by (simp add: a_def)
qed

lemma read_int32_bytes: "read_int32 (int32_bytes v @ rest) = Some (v, rest)"
proof -
  have lt: "unat v < 4294967296" using unsigned_less [of v] by simp
  have "(of_char (char_of (unat v)) :: nat) + 256 * of_char (char_of (unat v div 256))
        + 65536 * of_char (char_of (unat v div 65536))
        + 16777216 * of_char (char_of (unat v div 16777216)) = unat v"
    unfolding of_char_of by (rule bytes_sum [OF lt])
  then have "read_int32 (int32_bytes v @ rest) = Some (word_of_nat (unat v), rest)"
    unfolding read_int32_def int32_bytes_def by (simp only: append_Cons append_Nil list.case)
  then show ?thesis by simp
qed

lemma length_int32_bytes: "length (int32_bytes v) = 4"
  by (simp add: int32_bytes_def)

lemma sint_length:
  assumes "n < 2 ^ 31"
  shows "sint (word_of_nat n :: 32 word) = int n"
proof -
  have "int n < 2147483648" using assms by simp
  then have m: "(int n + 2147483648) mod 4294967296 = int n + 2147483648"
    by simp
  have "sint (word_of_int (int n) :: 32 word)
        = (int n + 2 ^ (LENGTH(32) - 1)) mod 2 ^ LENGTH(32) - 2 ^ (LENGTH(32) - 1)"
    by (rule int_word_sint)
  also have "\<dots> = int n" using m by simp
  finally show ?thesis by simp
qed

lemma read_length_prefixed_text_bytes:
  assumes "length m < 2 ^ 31"
  shows "read_length_prefixed_text (int32_bytes (word_of_nat (length m)) @ m @ rest)
         = Some (m, rest)"
  by (simp add: read_length_prefixed_text_def read_int32_bytes sint_length [OF assms])

lemma read_exception_bytes:
  assumes "length m < 2 ^ 31"
  shows "read_exception (int32_bytes d @ int32_bytes (word_of_nat (length m)) @ m @ rest)
         = Some (d, m, rest)"
  by (simp add: read_exception_def read_int32_bytes read_length_prefixed_text_bytes [OF assms])

lemma sint_ordinal: "sint (word_of_int (ordinal t) :: 32 word) = ordinal t"
  by (cases t) simp_all

lemma serialize_bytes:
  "serialize cls e output =
     virtual_p_serialize cls e
       (output @ int32_bytes (word_of_int (ordinal (getType e)))
          @ int32_bytes (word_of_nat (length (virtual_message cls e)))
          @ virtual_message cls e)"
  by (simp add: serialize_def write_length_prefixed_text_def write_int32_def)

subsection \<open>The claims\<close>

text \<open>
  C2. The enumeration gives the tag for "no exception" the value 0, the generic engine
  exception 1, the query exception 2, the constraint violation 3 and the interruption 4;
  there is no other tag, and no two tags share a value.
\<close>

theorem C2_ordinals:
  "ordinal VOLT_EE_EXCEPTION_TYPE_NONE = 0
   \<and> ordinal VOLT_EE_EXCEPTION_TYPE_EEEXCEPTION = 1
   \<and> ordinal VOLT_EE_EXCEPTION_TYPE_SQL = 2
   \<and> ordinal VOLT_EE_EXCEPTION_TYPE_CONSTRAINT_VIOLATION = 3
   \<and> ordinal VOLT_EE_EXCEPTION_TYPE_INTERRUPT = 4
   \<and> (UNIV :: VoltEEExceptionType set) =
        {VOLT_EE_EXCEPTION_TYPE_NONE, VOLT_EE_EXCEPTION_TYPE_EEEXCEPTION,
         VOLT_EE_EXCEPTION_TYPE_SQL, VOLT_EE_EXCEPTION_TYPE_CONSTRAINT_VIOLATION,
         VOLT_EE_EXCEPTION_TYPE_INTERRUPT}
   \<and> range ordinal = {0, 1, 2, 3, 4}
   \<and> inj ordinal"
proof -
  have all: "(UNIV :: VoltEEExceptionType set) =
        {VOLT_EE_EXCEPTION_TYPE_NONE, VOLT_EE_EXCEPTION_TYPE_EEEXCEPTION,
         VOLT_EE_EXCEPTION_TYPE_SQL, VOLT_EE_EXCEPTION_TYPE_CONSTRAINT_VIOLATION,
         VOLT_EE_EXCEPTION_TYPE_INTERRUPT}"
  proof -
    have "t \<in> {VOLT_EE_EXCEPTION_TYPE_NONE, VOLT_EE_EXCEPTION_TYPE_EEEXCEPTION,
         VOLT_EE_EXCEPTION_TYPE_SQL, VOLT_EE_EXCEPTION_TYPE_CONSTRAINT_VIOLATION,
         VOLT_EE_EXCEPTION_TYPE_INTERRUPT}" for t
      by (cases t) simp_all
    then show ?thesis by blast
  qed
  have rng: "range ordinal = {0, 1, 2, 3, 4}"
    unfolding all by simp
  have inj: "inj ordinal"
  proof (rule injI)
    fix a b assume "ordinal a = ordinal b"
    then show "a = b" by (cases a; cases b) simp_all
  qed
  from all rng inj show ?thesis by simp
qed

text \<open>
  C3. For every text \<open>m\<close>, the empty one included, \<open>UnexpectedEEException(m)\<close>
  is an instance whose type tag is the generic engine exception, of value 1, and whose
  \<open>message()\<close> is \<open>m\<close> itself. The constructor is a total function: it has no
  precondition.
\<close>

theorem C3_UnexpectedEEException_ctor:
  "getType (UnexpectedEEException m) = VOLT_EE_EXCEPTION_TYPE_EEEXCEPTION
   \<and> ordinal (getType (UnexpectedEEException m)) = 1
   \<and> message (UnexpectedEEException m) = m
   \<and> message (UnexpectedEEException []) = []"
  by (simp add: UnexpectedEEException_def SerializableEEException_ctor_def
      getType_def message_def)

text \<open>
  C5. Appending \<open>A\<close> and then \<open>B\<close> leaves the instance as one call with
  \<open>A\<close> followed by \<open>B\<close> does, and an append puts its argument right after
  the stored message, with nothing between them.
\<close>

theorem C5_append_twice:
  "appendContextToMessage B (appendContextToMessage A e) = appendContextToMessage (A @ B) e
   \<and> message (appendContextToMessage B (appendContextToMessage A e)) = message e @ A @ B
   \<and> message (appendContextToMessage A e) = message e @ A"
  by (simp add: appendContextToMessage_def message_def)

lemma getType_invoke: "getType (fst (invoke cls c st)) = getType (fst st)"
  by (cases st; cases c) (simp_all add: appendContextToMessage_def getType_def)

lemma getType_invoke_all: "getType (fst (invoke_all cls cs st)) = getType (fst st)"
  by (induction cs arbitrary: st) (simp_all add: getType_invoke)

lemma prefix_invoke: "prefix (message (fst st)) (message (fst (invoke cls c st)))"
  by (cases st; cases c) (simp_all add: appendContextToMessage_def message_def)

lemma prefix_invoke_all: "prefix (message (fst st)) (message (fst (invoke_all cls cs st)))"
proof (induction cs arbitrary: st)
  case Nil
  show ?case by simp
next
  case (Cons c cs)
  have "prefix (message (fst st)) (message (fst (invoke cls c st)))"
    by (rule prefix_invoke)
  also have "prefix \<dots> (message (fst (invoke_all cls cs (invoke cls c st))))"
    by (rule Cons.IH)
  finally show ?case by simp
qed

text \<open>
  C1. For every class \<open>cls\<close> derived from the base class, every instance and every
  sink, \<open>serialize\<close> leaves on the sink, after what was there, the four bytes of
  the type tag's value, the four bytes of the length of the current \<open>message()\<close>
  and the bytes of that message, and then hands the sink to the class's
  \<open>p_serialize\<close>; only that last step depends on the class. Read back, the first
  four bytes give the tag's value; and when the class's \<open>p_serialize\<close> writes the
  bytes \<open>t\<close> and the length fits a signed 32-bit integer, reading back what was
  written on an empty sink gives the tag's value, the message and \<open>t\<close>.
\<close>

theorem C1_serialize_framing:
  "serialize cls e output =
     virtual_p_serialize cls e
       (output @ int32_bytes (word_of_int (ordinal (getType e)))
          @ int32_bytes (word_of_nat (length (virtual_message cls e)))
          @ virtual_message cls e)
   \<and> sint (word_of_int (ordinal (getType e)) :: 32 word) = ordinal (getType e)
   \<and> read_int32
        (serialize (cls\<lparr>virtual_p_serialize := \<lambda>_ written. written @ t\<rparr>) e [])
       = Some (word_of_int (ordinal (getType e)),
               int32_bytes (word_of_nat (length (virtual_message cls e)))
                 @ virtual_message cls e @ t)
   \<and> (length (virtual_message cls e) < 2 ^ 31 \<longrightarrow>
        read_exception
          (serialize (cls\<lparr>virtual_p_serialize := \<lambda>_ written. written @ t\<rparr>) e [])
        = Some (word_of_int (ordinal (getType e)), virtual_message cls e, t))"
proof -
  have s: "serialize (cls\<lparr>virtual_p_serialize := \<lambda>_ written. written @ t\<rparr>) e []
           = int32_bytes (word_of_int (ordinal (getType e)))
             @ int32_bytes (word_of_nat (length (virtual_message cls e)))
             @ virtual_message cls e @ t"
    by (simp add: serialize_bytes)
  have r: "read_int32
        (serialize (cls\<lparr>virtual_p_serialize := \<lambda>_ written. written @ t\<rparr>) e [])
       = Some (word_of_int (ordinal (getType e)),
               int32_bytes (word_of_nat (length (virtual_message cls e)))
                 @ virtual_message cls e @ t)"
    unfolding s by (rule read_int32_bytes)
  have x: "read_exception
          (serialize (cls\<lparr>virtual_p_serialize := \<lambda>_ written. written @ t\<rparr>) e [])
        = Some (word_of_int (ordinal (getType e)), virtual_message cls e, t)"
    if "length (virtual_message cls e) < 2 ^ 31"
    unfolding s by (rule read_exception_bytes [OF that])
  from serialize_bytes [of cls e "output"] sint_ordinal [of "getType e"] r x
  show ?thesis by blast
qed

theorem C1_serialize_framing_witness:
  "length (virtual_message UnexpectedEEException_class (UnexpectedEEException ''boom'')) < 2 ^ 31
   \<and> read_exception
        (serialize
           (UnexpectedEEException_class\<lparr>virtual_p_serialize := \<lambda>_ written. written @ ''xy''\<rparr>)
           (UnexpectedEEException ''boom'') [])
       = Some (1, ''boom'', ''xy'')"
proof -
  have m: "virtual_message UnexpectedEEException_class (UnexpectedEEException ''boom'') = ''boom''"
    by (simp add: UnexpectedEEException_class_def UnexpectedEEException_def
        SerializableEEException_ctor_def message_def)
  have t: "getType (UnexpectedEEException ''boom'') = VOLT_EE_EXCEPTION_TYPE_EEEXCEPTION"
    by (simp add: UnexpectedEEException_def SerializableEEException_ctor_def getType_def)
  show ?thesis
    using C1_serialize_framing [of UnexpectedEEException_class "UnexpectedEEException ''boom''"
        "[]" "''xy''"]
    by (simp add: m t)
qed

text \<open>
  C4. For every instance of \<open>UnexpectedEEException\<close>, whatever its message (empty, or
  with zero bytes in it), \<open>p_serialize\<close> writes nothing: \<open>serialize\<close> adds to
  the sink the four bytes of the tag's value, the four bytes of the message's length and
  the message's bytes, eight bytes and the message in all. For an instance as constructed
  the tag's value is 1, and when the length fits a signed 32-bit integer, reading back
  what was written on an empty sink gives 1, the message and an empty trailer.
\<close>

theorem C4_UnexpectedEEException_trailer:
  "UnexpectedEEException_p_serialize e output = output
   \<and> serialize UnexpectedEEException_class e output
       = output @ int32_bytes (word_of_int (ordinal (getType e)))
           @ int32_bytes (word_of_nat (length (message e))) @ message e
   \<and> serialize UnexpectedEEException_class (UnexpectedEEException m) output
       = output @ int32_bytes 1 @ int32_bytes (word_of_nat (length m)) @ m
   \<and> length (serialize UnexpectedEEException_class (UnexpectedEEException m) output)
       = length output + 8 + length m
   \<and> serialize UnexpectedEEException_class (UnexpectedEEException []) []
       = int32_bytes 1 @ int32_bytes 0
   \<and> (length m < 2 ^ 31 \<longrightarrow>
        read_exception (serialize UnexpectedEEException_class (UnexpectedEEException m) [])
        = Some (1, m, []))"
proof -
  have m: "message (UnexpectedEEException m) = m" for m
    by (simp add: UnexpectedEEException_def SerializableEEException_ctor_def message_def)
  have t: "ordinal (getType (UnexpectedEEException m)) = 1" for m
    by (simp add: UnexpectedEEException_def SerializableEEException_ctor_def getType_def)
  have g: "serialize UnexpectedEEException_class e out
       = out @ int32_bytes (word_of_int (ordinal (getType e)))
           @ int32_bytes (word_of_nat (length (message e))) @ message e" for e out
    by (simp add: serialize_bytes UnexpectedEEException_class_def
        UnexpectedEEException_p_serialize_def)
  have c: "serialize UnexpectedEEException_class (UnexpectedEEException m) out
       = out @ int32_bytes 1 @ int32_bytes (word_of_nat (length m)) @ m" for m out
    by (simp add: g m t)
  have r: "read_exception (serialize UnexpectedEEException_class (UnexpectedEEException m) [])
        = Some (1, m, [])" if "length m < 2 ^ 31"
    using read_exception_bytes [OF that, of 1 "[]"] by (simp add: c)
  have l: "length (serialize UnexpectedEEException_class (UnexpectedEEException m) output)
       = length output + 8 + length m"
    by (simp add: c length_int32_bytes)
  have e: "serialize UnexpectedEEException_class (UnexpectedEEException []) []
       = int32_bytes 1 @ int32_bytes 0"
    by (simp add: c)
  from g c l e r show ?thesis
    by (simp add: UnexpectedEEException_p_serialize_def)
qed

theorem C4_UnexpectedEEException_trailer_witness:
  "length [CHR ''a'', CHR 0x00, CHR ''b''] < 2 ^ 31
   \<and> read_exception
        (serialize UnexpectedEEException_class
           (UnexpectedEEException [CHR ''a'', CHR 0x00, CHR ''b'']) [])
       = Some (1, [CHR ''a'', CHR 0x00, CHR ''b''], [])"
proof -
  have h: "length [CHR ''a'', CHR 0x00, CHR ''b''] < 2 ^ 31"
    by simp
  from C4_UnexpectedEEException_trailer
         [of "UnexpectedEEException []" "[]" "[CHR ''a'', CHR 0x00, CHR ''b'']"]
  have "length [CHR ''a'', CHR 0x00, CHR ''b''] < 2 ^ 31 \<longrightarrow>
        read_exception
          (serialize UnexpectedEEException_class
             (UnexpectedEEException [CHR ''a'', CHR 0x00, CHR ''b'']) [])
        = Some (1, [CHR ''a'', CHR 0x00, CHR ''b''], [])"
    by blast
  with h show ?thesis by blast
qed

text \<open>
  C8. The type tag that \<open>getType\<close> returns is the same after any sequence of calls
  of \<open>message\<close>, \<open>getType\<close>, \<open>appendContextToMessage\<close> and
  \<open>serialize\<close> as before it, for an instance of any class: it is the tag that the
  constructor was given. The tag of an
  \<open>UnexpectedEEException\<close> is not the "none" tag, and its value stays 1, not 0,
  through every such sequence.
\<close>

theorem C8_type_fixed:
  "getType (fst (invoke_all cls calls (e, output))) = getType e
   \<and> getType (appendContextToMessage s e) = getType e
   \<and> getType (fst (invoke_all cls calls (SerializableEEException_ctor t m, output))) = t
   \<and> getType (UnexpectedEEException m) \<noteq> VOLT_EE_EXCEPTION_TYPE_NONE
   \<and> ordinal (getType (fst (invoke_all cls calls (UnexpectedEEException m, output)))) = 1
   \<and> ordinal (getType (fst (invoke_all cls calls (UnexpectedEEException m, output)))) \<noteq> 0"
proof -
  have a: "getType (fst (invoke_all cls calls (e, output))) = getType e" for e
    using getType_invoke_all [of cls calls "(e, output)"] by simp
  have b: "getType (UnexpectedEEException m) = VOLT_EE_EXCEPTION_TYPE_EEEXCEPTION"
    by (simp add: UnexpectedEEException_def SerializableEEException_ctor_def getType_def)
  have c: "getType (SerializableEEException_ctor t m) = t"
    by (simp add: SerializableEEException_ctor_def getType_def)
  show ?thesis
    by (simp add: a b c) (simp add: appendContextToMessage_def getType_def)
qed

text \<open>
  C9. The message before a call of \<open>appendContextToMessage\<close> is a prefix of the
  message after it, and the same holds across any sequence of calls of the public member
  functions: the stored message never gets shorter and what it held stays at its front.
\<close>

theorem C9_message_grows:
  "prefix (message e) (message (appendContextToMessage s e))
   \<and> prefix (message e) (message (fst (invoke_all cls calls (e, output))))
   \<and> length (message e) \<le> length (message (fst (invoke_all cls calls (e, output))))"
proof -
  have p: "prefix (message e) (message (fst (invoke_all cls calls (e, output))))"
    using prefix_invoke_all [of "(e, output)" cls calls] by simp
  have q: "prefix (message e) (message (appendContextToMessage s e))"
    by (simp add: appendContextToMessage_def message_def)
  from p q prefix_length_le [OF p] show ?thesis by simp
qed

lemma foldl_stream_insert: "foldl stream_insert buffer vs = buffer @ concat (map inserted vs)"
  by (induction vs arbitrary: buffer) (simp_all add: stream_insert_def)

lemma thrown_formatted:
  "throwSerializableEEException formatted
   = Inl (UnexpectedEEException (takeWhile (\<lambda>c. c \<noteq> CHR 0x00) (take 8191 formatted)))"
proof -
  have s: "snprintf 8192 formatted = take 8191 formatted @ [CHR 0x00]"
    by (simp add: snprintf_def)
  have "takeWhile (\<lambda>c. c \<noteq> CHR 0x00) (take 8191 formatted @ [CHR 0x00])
        = takeWhile (\<lambda>c. c \<noteq> CHR 0x00) (take 8191 formatted)"
    by (rule takeWhile_tail) simp
  then show ?thesis
    unfolding throwSerializableEEException_def Let_def string_of_chars_def s
    by (simp only:)
qed

lemma message_UnexpectedEEException: "message (UnexpectedEEException m) = m"
  by (simp add: UnexpectedEEException_def SerializableEEException_ctor_def message_def)

lemma getType_UnexpectedEEException:
  "getType (UnexpectedEEException m) = VOLT_EE_EXCEPTION_TYPE_EEEXCEPTION"
  by (simp add: UnexpectedEEException_def SerializableEEException_ctor_def getType_def)

lemma takeWhile_no_zero:
  assumes "CHR 0x00 \<notin> set xs"
  shows "takeWhile (\<lambda>c. c \<noteq> CHR 0x00) xs = xs"
  using assms by (induction xs) auto

text \<open>
  C6, as the claim states it, fails: the exception does not always carry the rendered
  text cut at the size of the array. The output of the format \<open>"ab%ccd"\<close> given 0
  has five bytes, far below the bound, and the message raised is \<open>"ab"\<close>: the text
  in the array ends at its first zero byte.
\<close>

theorem C6_carried_text_counterexample:
  "length [CHR ''a'', CHR ''b'', CHR 0x00, CHR ''c'', CHR ''d''] < 8192
   \<and> isl (throwSerializableEEException [CHR ''a'', CHR ''b'', CHR 0x00, CHR ''c'', CHR ''d''])
   \<and> message (projl (throwSerializableEEException
                        [CHR ''a'', CHR ''b'', CHR 0x00, CHR ''c'', CHR ''d''])) = ''ab''
   \<and> message (projl (throwSerializableEEException
                        [CHR ''a'', CHR ''b'', CHR 0x00, CHR ''c'', CHR ''d'']))
       \<noteq> take 8191 [CHR ''a'', CHR ''b'', CHR 0x00, CHR ''c'', CHR ''d'']"
  by (simp add: thrown_formatted message_UnexpectedEEException)

text \<open>
  C6, amended. For every output that a format and its arguments produce, the macro
  stores in its array of 8192 bytes the first 8191 bytes of the output and a zero byte
  after them, at most 8192 bytes in all, and then raises, in every case, an
  \<open>UnexpectedEEException\<close> (type tag of the generic engine exception) whose message
  is the text in the array up to its first zero byte: the bytes of the output before its
  first zero byte and before its byte 8191, a prefix of the output of at most 8191
  bytes. When the first 8191 bytes of the output hold no zero byte, the message is
  exactly those bytes, the output cut at the bound; and it is the whole output when that
  also has less than 8192 bytes.
\<close>

theorem C6_formatted_raise_amended:
  "snprintf 8192 formatted = take 8191 formatted @ [CHR 0x00]
   \<and> length (snprintf 8192 formatted) = min (length formatted) 8191 + 1
   \<and> length (snprintf 8192 formatted) \<le> 8192
   \<and> isl (throwSerializableEEException formatted)
   \<and> throwSerializableEEException formatted
       = Inl (UnexpectedEEException (string_of_chars (snprintf 8192 formatted)))
   \<and> getType (projl (throwSerializableEEException formatted))
       = VOLT_EE_EXCEPTION_TYPE_EEEXCEPTION
   \<and> message (projl (throwSerializableEEException formatted))
       = takeWhile (\<lambda>c. c \<noteq> CHR 0x00) (take 8191 formatted)
   \<and> prefix (message (projl (throwSerializableEEException formatted))) formatted
   \<and> length (message (projl (throwSerializableEEException formatted))) \<le> 8191
   \<and> (CHR 0x00 \<notin> set (take 8191 formatted) \<longrightarrow>
        message (projl (throwSerializableEEException formatted)) = take 8191 formatted)
   \<and> (CHR 0x00 \<notin> set (take 8191 formatted) \<and> length formatted < 8192 \<longrightarrow>
        message (projl (throwSerializableEEException formatted)) = formatted)"
proof -
  let ?m = "takeWhile (\<lambda>c. c \<noteq> CHR 0x00) (take 8191 formatted)"
  let ?e = "projl (throwSerializableEEException formatted)"
  have b: "snprintf 8192 formatted = take 8191 formatted @ [CHR 0x00]"
    by (simp add: snprintf_def)
  have l: "length (snprintf 8192 formatted) = min (length formatted) 8191 + 1"
    unfolding b by simp
  have l2: "length (snprintf 8192 formatted) \<le> 8192"
    unfolding l by simp
  have d: "throwSerializableEEException formatted
           = Inl (UnexpectedEEException (string_of_chars (snprintf 8192 formatted)))"
    by (simp only: throwSerializableEEException_def Let_def)
  have i: "isl (throwSerializableEEException formatted)"
    unfolding thrown_formatted by (rule sum.disc(1))
  have e: "?e = UnexpectedEEException ?m"
    unfolding thrown_formatted by (rule sum.sel(1))
  have g: "getType ?e = VOLT_EE_EXCEPTION_TYPE_EEEXCEPTION"
    unfolding e by (rule getType_UnexpectedEEException)
  have m: "message ?e = ?m"
    unfolding e by (rule message_UnexpectedEEException)
  have p: "prefix (message ?e) formatted"
  proof -
    have "prefix ?m (take 8191 formatted)"
      by (metis prefixI takeWhile_dropWhile_id)
    also have "prefix \<dots> formatted" by (rule take_is_prefix)
    finally show ?thesis unfolding m .
  qed
  have n: "length (message ?e) \<le> 8191"
  proof -
    have "length ?m \<le> length (take 8191 formatted)" by (rule length_takeWhile_le)
    also have "\<dots> \<le> 8191" by simp
    finally show ?thesis unfolding m .
  qed
  have z: "message ?e = take 8191 formatted" if "CHR 0x00 \<notin> set (take 8191 formatted)"
    unfolding m by (rule takeWhile_no_zero [OF that])
  have w: "message ?e = formatted"
    if "CHR 0x00 \<notin> set (take 8191 formatted) \<and> length formatted < 8192"
  proof -
    from that have t: "take 8191 formatted = formatted" by simp
    from that have "message ?e = take 8191 formatted" by (intro z) blast
    then show ?thesis unfolding t .
  qed
  from b l l2 i d g m p n z w show ?thesis by blast
qed

theorem C6_formatted_raise_amended_witness:
  "CHR 0x00 \<notin> set (take 8191 (replicate 9000 CHR ''x''))
   \<and> message (projl (throwSerializableEEException (replicate 9000 CHR ''x'')))
       = replicate 8191 CHR ''x''
   \<and> CHR 0x00 \<notin> set (take 8191 ''row 42'') \<and> length ''row 42'' < 8192
   \<and> message (projl (throwSerializableEEException ''row 42'')) = ''row 42''"
proof -
  have a: "CHR 0x00 \<notin> set (take 8191 (replicate 9000 CHR ''x''))" by simp
  have b: "CHR 0x00 \<notin> set (take 8191 ''row 42'') \<and> length ''row 42'' < 8192" by simp
  from C6_formatted_raise_amended [of "replicate 9000 CHR ''x''"] a
  have "message (projl (throwSerializableEEException (replicate 9000 CHR ''x'')))
        = take 8191 (replicate 9000 CHR ''x'')"
    by blast
  then have c: "message (projl (throwSerializableEEException (replicate 9000 CHR ''x'')))
        = replicate 8191 CHR ''x''"
    by simp
  from C6_formatted_raise_amended [of "''row 42''"] b
  have d: "message (projl (throwSerializableEEException ''row 42'')) = ''row 42''"
    by blast
  from a b c d show ?thesis by blast
qed

text \<open>
  C10, as the claim states it, fails: an output of 8192 bytes that starts with a zero
  byte (from \<open>%c\<close> given 0) raises an exception with the empty message, not one of
  8191 bytes.
\<close>

theorem C10_zero_byte_counterexample:
  "8191 \<le> length (CHR 0x00 # replicate 8191 CHR ''x'')
   \<and> throwSerializableEEException (CHR 0x00 # replicate 8191 CHR ''x'')
       = Inl (UnexpectedEEException [])
   \<and> length (message (UnexpectedEEException [])) \<noteq> 8191"
  by (simp add: thrown_formatted message_UnexpectedEEException)

text \<open>
  C10, amended. For every output of 8191 bytes or more with no zero byte among its first
  8191, the macro raises an \<open>UnexpectedEEException\<close> whose message is the first 8191
  bytes of the output, so of length 8191 exactly: the array of 8192 bytes holds the
  terminating zero byte too.
\<close>

theorem C10_message_length_8191:
  assumes "8191 \<le> length formatted"
    and "CHR 0x00 \<notin> set (take 8191 formatted)"
  shows "throwSerializableEEException formatted
           = Inl (UnexpectedEEException (take 8191 formatted))
         \<and> length (message (UnexpectedEEException (take 8191 formatted))) = 8191"
proof -
  have "throwSerializableEEException formatted
        = Inl (UnexpectedEEException (take 8191 formatted))"
    unfolding thrown_formatted takeWhile_no_zero [OF assms(2)] ..
  moreover have "length (message (UnexpectedEEException (take 8191 formatted))) = 8191"
    unfolding message_UnexpectedEEException using assms(1) by simp
  ultimately show ?thesis ..
qed

theorem C10_message_length_8191_witness:
  "8191 \<le> length (replicate 8191 CHR ''x'' @ [CHR 0x00, CHR ''y''])
   \<and> CHR 0x00 \<notin> set (take 8191 (replicate 8191 CHR ''x'' @ [CHR 0x00, CHR ''y'']))
   \<and> throwSerializableEEException (replicate 8191 CHR ''x'' @ [CHR 0x00, CHR ''y''])
       = Inl (UnexpectedEEException (replicate 8191 CHR ''x''))
   \<and> length (message (UnexpectedEEException (replicate 8191 CHR ''x''))) = 8191"
proof -
  have a: "8191 \<le> length (replicate 8191 CHR ''x'' @ [CHR 0x00, CHR ''y''])" by simp
  have b: "CHR 0x00 \<notin> set (take 8191 (replicate 8191 CHR ''x'' @ [CHR 0x00, CHR ''y'']))"
    by simp
  from C10_message_length_8191 [OF a b] a b show ?thesis by simp
qed

text \<open>
  C7, as the claim states it, fails: for the values \<open>"bad plan id"\<close> and \<open>7\<close> in
  file \<open>plan.cc\<close> at line 88 the message has no space between the two values and
  ends with a newline.
\<close>

theorem C7_streamed_counterexample:
  "throwUnexpectedEEExceptionStreamed
     [Streamed_string ''bad plan id'', Streamed_int 7] ''plan.cc'' 88
   = Inl (UnexpectedEEException (''bad plan id7 plan.cc:88'' @ [CHR 0x0A]))
   \<and> message (UnexpectedEEException (''bad plan id7 plan.cc:88'' @ [CHR 0x0A]))
       \<noteq> ''bad plan id 7 plan.cc:88''"
  by (simp add: throwUnexpectedEEExceptionStreamed_def stream_insert_def
      message_UnexpectedEEException)

text \<open>
  C7, amended. For the values \<open>"bad plan id"\<close> and \<open>7\<close> in file \<open>plan.cc\<close>
  at line 88 the macro raises an \<open>UnexpectedEEException\<close> whose message is
  \<open>"bad plan id7 plan.cc:88\n"\<close>. In general the message is the texts of the values
  in order with nothing between them, one space, the file, a colon, the line in base ten
  and a newline.
\<close>

theorem C7_streamed_message:
  "throwUnexpectedEEExceptionStreamed
     [Streamed_string ''bad plan id'', Streamed_int 7] ''plan.cc'' 88
   = Inl (UnexpectedEEException (''bad plan id7 plan.cc:88'' @ [CHR 0x0A]))
   \<and> message (UnexpectedEEException (''bad plan id7 plan.cc:88'' @ [CHR 0x0A]))
       = ''bad plan id7 plan.cc:88'' @ [CHR 0x0A]
   \<and> getType (UnexpectedEEException (''bad plan id7 plan.cc:88'' @ [CHR 0x0A]))
       = VOLT_EE_EXCEPTION_TYPE_EEEXCEPTION
   \<and> throwUnexpectedEEExceptionStreamed vs file line
       = Inl (UnexpectedEEException
               (concat (map inserted vs) @ '' '' @ file @ '':''
                  @ inserted (Streamed_int line) @ [CHR 0x0A]))"
proof -
  have g: "throwUnexpectedEEExceptionStreamed vs file line
       = Inl (UnexpectedEEException
               (concat (map inserted vs) @ '' '' @ file @ '':''
                  @ inserted (Streamed_int line) @ [CHR 0x0A]))" for vs "file" line
    unfolding throwUnexpectedEEExceptionStreamed_def Let_def foldl_stream_insert
    by simp
  have c: "throwUnexpectedEEExceptionStreamed
     [Streamed_string ''bad plan id'', Streamed_int 7] ''plan.cc'' 88
   = Inl (UnexpectedEEException (''bad plan id7 plan.cc:88'' @ [CHR 0x0A]))"
    unfolding g by simp
  from g c show ?thesis
    by (simp only: message_UnexpectedEEException getType_UnexpectedEEException)
qed

end
